theory Spec2Isabelle
  imports Main "HOL-Library.Word"
begin

unbundle bit_operations_syntax

section \<open>Bytes, APDUs and the smart-card port\<close>

type_synonym byte = "8 word"
type_synonym bytes = "byte list"

text \<open>
  A range of a \<open>std::vector\<close> given by two iterators \<open>begin() + lo\<close> and \<open>begin() + hi\<close>
  (or \<open>end()\<close>). C++ does not check the offsets; an iterator beyond \<open>end()\<close> is a read
  outside the container. The model returns \<open>None\<close> exactly there, so that such a read is
  a value of its own and not some unspecified list.
\<close>

definition range_from :: "bytes \<Rightarrow> nat \<Rightarrow> bytes option" where
  "range_from v lo = (if lo \<le> length v then Some (drop lo v) else None)"

definition range_between :: "bytes \<Rightarrow> nat \<Rightarrow> nat \<Rightarrow> bytes option" where
  "range_between v lo hi =
     (if lo \<le> hi \<and> hi \<le> length v then Some (take (hi - lo) (drop lo v)) else None)"

text \<open>
  \<open>std::equal(first1, last1, first2)\<close>: walks the first range and reads the second one
  at the same positions; it stops at the first difference. \<open>None\<close>: the second range
  ended while the first still had elements to compare (a read past its end).
\<close>

fun std_equal :: "bytes \<Rightarrow> bytes \<Rightarrow> bool option" where
  "std_equal [] ys = Some True"
| "std_equal (x # xs) [] = None"
| "std_equal (x # xs) (y # ys) = (if x = y then std_equal xs ys else Some False)"

text \<open>
  The loop \<open>for (i = 0; i < hash.size(); i++) hash[i] ^= ecmResponse[i]\<close>
  (acasCard.cpp, lines 147 to 149). \<open>None\<close>: \<open>ecmResponse\<close> is shorter than \<open>hash\<close>
  and \<open>ecmResponse[i]\<close> reads past its end.
\<close>

fun xor_loop :: "bytes \<Rightarrow> bytes \<Rightarrow> bytes option" where
  "xor_loop [] rs = Some []"
| "xor_loop (h # hs) [] = None"
| "xor_loop (h # hs) (r # rs) = map_option ((#) (h XOR r)) (xor_loop hs rs)"

text \<open>
  Modelled from the spec: \<open>ApduResponse\<close> and \<open>ApduCommand\<close> are declared in headers that
  are not part of the sources at hand. A response is a data field and the status word
  SW1 SW2, and it is a success iff SW1 SW2 = 0x9000; a case-4-short command is
  \<open>CLA INS P1 P2 Lc data Le\<close> with Lc one byte holding the length of the data.
\<close>

record ApduResponse =
  getData :: bytes
  sw1 :: byte
  sw2 :: byte

definition isSuccess :: "ApduResponse \<Rightarrow> bool" where
  "isSuccess r \<longleftrightarrow> sw1 r = 0x90 \<and> sw2 r = 0x00"

definition case4short :: "byte \<Rightarrow> byte \<Rightarrow> byte \<Rightarrow> byte \<Rightarrow> bytes \<Rightarrow> byte \<Rightarrow> bytes" where
  "case4short cla ins p1 p2 dat le = [cla, ins, p1, p2, of_nat (length dat)] @ dat @ [le]"

text \<open>The PC/SC transport status codes the code compares with (winscard.h).\<close>

definition SCARD_S_SUCCESS :: "32 word" where
  "SCARD_S_SUCCESS = 0x00000000"

definition SCARD_W_RESET_CARD :: "32 word" where
  "SCARD_W_RESET_CARD = 0x80100068"

definition SCARD_E_INVALID_HANDLE :: "32 word" where
  "SCARD_E_INVALID_HANDLE = 0x80100003"

text \<open>
  The smart card is reached through the abstract interface \<open>ISmartCard\<close>; its
  implementations are not part of the sources. The model takes the interface as a record
  of operations over a state \<open>'c\<close> of the outside world (reader, card, random device).
  An operation either returns (\<open>Ret\<close>) or throws \<open>std::runtime_error\<close> (\<open>Raise\<close>),
  which \<open>AcasCard::ecm\<close> catches. \<open>endTransaction\<close> is the destructor of the scoped
  transaction handle.
\<close>

datatype ('r, 'c) call = Ret 'r 'c | Raise 'c

record 'c ISmartCard =
  isInited :: "'c \<Rightarrow> bool"
  init :: "'c \<Rightarrow> (unit, 'c) call"
  isConnected :: "'c \<Rightarrow> bool"
  connect :: "'c \<Rightarrow> (unit, 'c) call"
  scopedTransaction :: "'c \<Rightarrow> (unit, 'c) call"
  endTransaction :: "'c \<Rightarrow> 'c"
  transmit :: "'c \<Rightarrow> bytes \<Rightarrow> (32 word \<times> ApduResponse, 'c) call"

text \<open>
  What \<open>AcasCard\<close> uses besides the card: \<open>SHA256::hash\<close> and the master key of
  \<open>config.h\<close> (neither is in the sources, both are parameters here), and the random
  engine, one byte per draw.
\<close>

record 'c externals =
  SHA256_hash :: "bytes \<Rightarrow> bytes"
  masterKey :: bytes
  distrib :: "'c \<Rightarrow> byte \<times> 'c"

text \<open>
  The result of a member function of \<open>AcasCard\<close>: it returns a value and leaves the
  world in a state, or an exception leaves it, or it reads outside a container
  (undefined behaviour in C++; nothing is said about what follows).
\<close>

datatype ('a, 'c) outcome = Returned 'a 'c | Thrown 'c | OutOfRange

record DecryptionKey =
  odd :: bytes
  even :: bytes

section \<open>AcasCard (acasCard.cpp)\<close>

text \<open>Lines 23 to 25: \<open>n\<close> draws from the random engine.\<close>

fun draw :: "('c \<Rightarrow> byte \<times> 'c) \<Rightarrow> nat \<Rightarrow> 'c \<Rightarrow> bytes \<times> 'c" where
  "draw d 0 c = ([], c)"
| "draw d (Suc n) c =
     (case d c of (b, c1) \<Rightarrow> (case draw d n c1 of (bs, c2) \<Rightarrow> (b # bs, c2)))"

text \<open>Lines 32 to 37 and 91 to 96: initialise and connect unless already done.\<close>

definition ensure_ready :: "'c ISmartCard \<Rightarrow> 'c \<Rightarrow> (unit, 'c) call" where
  "ensure_ready sc c =
     (case (if isInited sc c then Ret () c else init sc c) of
        Raise c' \<Rightarrow> Raise c'
      | Ret _ c1 \<Rightarrow> (if isConnected sc c1 then Ret () c1 else connect sc c1))"

text \<open>
  Lines 47 to 78 of \<open>getA0AuthKcl\<close>: the part after a successful response. The result
  \<open>Some kcl\<close> stands for "returns true and writes \<open>output = kcl\<close>", \<open>None\<close> for
  "returns false, \<open>output\<close> untouched". The debugging output is left out.
\<close>

definition a0_authenticate ::
  "'c externals \<Rightarrow> bytes \<Rightarrow> bytes \<Rightarrow> 'c \<Rightarrow> (bytes option, 'c) outcome" where
  "a0_authenticate X a0init a0data c =
     (case range_between a0data 0x06 (0x06 + 0x08) of
        None \<Rightarrow> OutOfRange
      | Some a0response \<Rightarrow>
     (case range_from a0data 0x0e of
        None \<Rightarrow> OutOfRange
      | Some a0hash \<Rightarrow>
          (let plainKcl = masterKey X @ a0init @ a0response;
               kcl = SHA256_hash X plainKcl;
               plainData = kcl @ a0init;
               hash = SHA256_hash X plainData
           in case std_equal hash a0hash of
                None \<Rightarrow> OutOfRange
              | Some False \<Rightarrow> Returned None c
              | Some True \<Rightarrow> Returned (Some kcl) c)))"

definition a0_prefix :: bytes where
  "a0_prefix = [0x00, 0x00, 0x00, 0x01, 0x00, 0x00, 0x8A, 0xF7]"

definition getA0AuthKcl ::
  "'c externals \<Rightarrow> 'c ISmartCard \<Rightarrow> 'c \<Rightarrow> (bytes option, 'c) outcome" where
  "getA0AuthKcl X sc c =
     (case draw (distrib X) 8 c of (a0init, c0) \<Rightarrow>
     (case ensure_ready sc c0 of
        Raise c' \<Rightarrow> Thrown c'
      | Ret _ c1 \<Rightarrow>
     (case transmit sc c1 (case4short 0x90 0xA0 0x00 0x01 (a0_prefix @ a0init) 0x00) of
        Raise c' \<Rightarrow> Thrown c'
      | Ret (status, response) c2 \<Rightarrow>
          if status \<noteq> SCARD_S_SUCCESS then Returned None c2
          else if \<not> isSuccess response then Returned None c2
          else a0_authenticate X a0init (getData response) c2)))"

text \<open>
  Lines 128 to 154 of \<open>ecm\<close>: the control words from the session key, the ECM and the
  data of the card's response. \<open>None\<close> is a read outside a container.
\<close>

definition ecm_derive :: "'c externals \<Rightarrow> bytes \<Rightarrow> bytes \<Rightarrow> bytes \<Rightarrow> DecryptionKey option" where
  "ecm_derive X kcl ecm ecmData =
     (case range_from ecmData 0x06 of
        None \<Rightarrow> None
      | Some ecmResponse \<Rightarrow>
     (case range_between ecm 0x04 (0x04 + 0x17) of
        None \<Rightarrow> None
      | Some ecmInit \<Rightarrow>
     (case xor_loop (SHA256_hash X (kcl @ ecmInit)) ecmResponse of
        None \<Rightarrow> None
      | Some hash \<Rightarrow>
     (case range_between hash 0 0x10 of
        None \<Rightarrow> None
      | Some o16 \<Rightarrow>
     (case range_between hash 0x10 0x20 of
        None \<Rightarrow> None
      | Some e16 \<Rightarrow> Some \<lparr>odd = o16, even = e16\<rparr>)))))"

text \<open>
  Lines 109 to 154 of \<open>ecm\<close>, after the A0 exchange has given \<open>kcl\<close>: the 34 command.
  \<open>Inl c'\<close> asks for a retry (lines 112 to 118, before the test of the counter),
  \<open>Inr\<close> is the end of the call.
\<close>

definition ecm_34 ::
  "'c externals \<Rightarrow> 'c ISmartCard \<Rightarrow> bytes \<Rightarrow> bytes \<Rightarrow> 'c \<Rightarrow>
     'c + (DecryptionKey option, 'c) outcome" where
  "ecm_34 X sc ecm kcl c =
     (case transmit sc c (case4short 0x90 0x34 0x00 0x01 ecm 0x00) of
        Raise c' \<Rightarrow> Inr (Thrown c')
      | Ret (ret, response) c1 \<Rightarrow>
          if ret \<noteq> SCARD_S_SUCCESS then
            (if ret = SCARD_W_RESET_CARD \<or> ret = SCARD_E_INVALID_HANDLE then Inl c1
             else Inr (Returned None c1))
          else if \<not> isSuccess response then Inr (Returned None c1)
          else (case ecm_derive X kcl ecm (getData response) of
                  None \<Rightarrow> Inr OutOfRange
                | Some k \<Rightarrow> Inr (Returned (Some k) c1)))"

text \<open>
  One pass from the label \<open>retry\<close> (lines 90 to 154) to a \<open>return\<close>, a \<open>goto retry\<close>
  or an exception. \<open>Again c'\<close>: a failure that the code retries if the counter allows
  (the A0 exchange returned false, or the 34 command met a reset card or an invalid
  handle). The scoped transaction is released when the pass ends, on every path.
\<close>

datatype 'c pass = Again 'c | Final "(DecryptionKey option, 'c) outcome"

definition release :: "'c ISmartCard \<Rightarrow> (DecryptionKey option, 'c) outcome
    \<Rightarrow> (DecryptionKey option, 'c) outcome" where
  "release sc r = (case r of
       Returned v c \<Rightarrow> Returned v (endTransaction sc c)
     | Thrown c \<Rightarrow> Thrown (endTransaction sc c)
     | OutOfRange \<Rightarrow> OutOfRange)"

definition ecm_pass :: "'c externals \<Rightarrow> 'c ISmartCard \<Rightarrow> bytes \<Rightarrow> 'c \<Rightarrow> 'c pass" where
  "ecm_pass X sc ecm c =
     (case ensure_ready sc c of
        Raise c' \<Rightarrow> Final (Thrown c')
      | Ret _ c1 \<Rightarrow>
     (case scopedTransaction sc c1 of
        Raise c' \<Rightarrow> Final (Thrown c')
      | Ret _ c2 \<Rightarrow>
     (case getA0AuthKcl X sc c2 of
        OutOfRange \<Rightarrow> Final OutOfRange
      | Thrown c' \<Rightarrow> Final (Thrown (endTransaction sc c'))
      | Returned None c3 \<Rightarrow> Again (endTransaction sc c3)
      | Returned (Some kcl) c3 \<Rightarrow>
          (case ecm_34 X sc ecm kcl c3 of
             Inl c' \<Rightarrow> Again (endTransaction sc c')
           | Inr r \<Rightarrow> Final (release sc r)))))"

text \<open>
  The retry loop of \<open>ecm\<close> (the label \<open>retry\<close> and the two \<open>goto\<close>s), with the local
  \<open>retryCount\<close> as an argument. The result carries the value of \<open>retryCount\<close> at the
  \<open>return\<close>, which is the number of \<open>goto retry\<close> taken. The \<open>catch\<close> of line 156 turns
  an exception into \<open>return false\<close>.
\<close>

function ecm_retry ::
  "'c externals \<Rightarrow> 'c ISmartCard \<Rightarrow> bytes \<Rightarrow> nat \<Rightarrow> 'c \<Rightarrow>
     (DecryptionKey option \<times> nat, 'c) outcome" where
  "ecm_retry X sc ecm retryCount c =
     (case ecm_pass X sc ecm c of
        Again c' \<Rightarrow>
          if retryCount > 1 then Returned (None, retryCount) c'
          else ecm_retry X sc ecm (retryCount + 1) c'
      | Final (Returned v c') \<Rightarrow> Returned (v, retryCount) c'
      | Final (Thrown c') \<Rightarrow> Returned (None, retryCount) c'
      | Final OutOfRange \<Rightarrow> OutOfRange)"
  by pat_completeness auto
termination
  by (relation "measure (\<lambda>(X, sc, ecm, retryCount, c). 2 - retryCount)") auto

declare ecm_retry.simps [simp del]

text \<open>
  \<open>AcasCard::ecm\<close>. The member \<open>smartCard\<close> is a pointer that \<open>setSmartCard\<close> fills:
  \<open>None\<close> is the null pointer of lines 85 to 87.
\<close>

definition ecm ::
  "'c externals \<Rightarrow> 'c ISmartCard option \<Rightarrow> bytes \<Rightarrow> 'c \<Rightarrow>
     (DecryptionKey option \<times> nat, 'c) outcome" where
  "ecm X smartCard e c =
     (case smartCard of
        None \<Rightarrow> Returned (None, 0) c
      | Some sc \<Rightarrow> ecm_retry X sc e 0 c)"


section \<open>AcasHandler (acasHandler.cpp)\<close>














section \<open>IOThread (ioThread.h)\<close>


definition SPILL_OVER_AREA_SIZE :: nat where
  "SPILL_OVER_AREA_SIZE = 1024 * 1024"

definition NEW_DATA_AREA_SIZE :: nat where
  "NEW_DATA_AREA_SIZE = 1024 * 1024 * 16"

definition BUFFER_SIZE :: nat where
  "BUFFER_SIZE = SPILL_OVER_AREA_SIZE + NEW_DATA_AREA_SIZE"

text \<open>
  Writing the bytes \<open>src\<close> into a buffer from offset \<open>off\<close> on (\<open>std::copy_n\<close> to
  \<open>workBuffer->begin()\<close>, \<open>istream::read\<close> to \<open>workBuffer->data() + remainingSize\<close>).
  \<open>None\<close>: a byte would be written outside the buffer.
\<close>

definition write_at :: "bytes \<Rightarrow> nat \<Rightarrow> bytes \<Rightarrow> bytes option" where
  "write_at buf off src =
     (if off + length src \<le> length buf
      then Some (take off buf @ src @ drop (off + length src) buf) else None)"


text \<open>
  Steps 4 to 6 of an iteration of \<open>threadFunc\<close> (lines 101 to 125), on the report's
  \<open>remaining_view\<close>, the work buffer and the bytes the input stream still holds.
  \<open>Stop\<close>: the EOF signal of lines 116 to 119. \<open>Push buf remainingSize bytesRead\<close>: the
  filled buffer, whose view is the first \<open>remainingSize + bytesRead\<close> bytes of \<open>buf\<close>.
  The second component is the rest of the input. A stream over a finite input gives
  \<open>bytesRead = 0\<close> only at its end, where \<open>eof()\<close> holds.
\<close>

datatype step = Stop | Push bytes nat nat

definition remaining_size :: "bytes \<Rightarrow> nat" where
  "remaining_size rv =
     (if rv \<noteq> [] then
        (if length rv > SPILL_OVER_AREA_SIZE then SPILL_OVER_AREA_SIZE else length rv)
      else 0)"

definition produce :: "bytes \<Rightarrow> bytes \<Rightarrow> bytes \<Rightarrow> (step \<times> bytes) option" where
  "produce rv workBuffer input =
     (let remainingSize = remaining_size rv
      in case (if rv \<noteq> [] then write_at workBuffer 0 (take remainingSize rv)
               else Some workBuffer) of
           None \<Rightarrow> None
         | Some wb1 \<Rightarrow>
             (let chunk = take NEW_DATA_AREA_SIZE input;
                  rest = drop NEW_DATA_AREA_SIZE input
              in case write_at wb1 remainingSize chunk of
                   None \<Rightarrow> None
                 | Some wb2 \<Rightarrow>
                     if length chunk = 0 then Some (Stop, rest)
                     else Some (Push wb2 remainingSize (length chunk), rest)))"






section \<open>Concrete instances\<close>


text \<open>
  Stand-ins for what is outside the sources, used to run the model on concrete inputs.
  \<open>digest\<close> is a function with 32 bytes of output in the place of SHA-256; \<open>replay\<close>
  is a card that answers each command with the next recorded reply, whatever the
  command, and throws when no reply is left; the random engine of \<open>toy\<close> draws the
  byte 1 every time.
\<close>

definition digest :: "bytes \<Rightarrow> bytes" where
  "digest xs = map (\<lambda>i. sum_list xs + of_nat i * (1 + 2 * sum_list xs)) [0..<32]"

definition toy :: "(32 word \<times> ApduResponse) list externals" where
  "toy = \<lparr>SHA256_hash = digest, masterKey = replicate 32 0xAA, distrib = (\<lambda>c. (0x01, c))\<rparr>"

definition replay :: "(32 word \<times> ApduResponse) list ISmartCard" where
  "replay = \<lparr>isInited = (\<lambda>c. True), init = (\<lambda>c. Ret () c),
     isConnected = (\<lambda>c. True), connect = (\<lambda>c. Ret () c),
     scopedTransaction = (\<lambda>c. Ret () c), endTransaction = (\<lambda>c. c),
     transmit = (\<lambda>c apdu. case c of [] \<Rightarrow> Raise [] | r # rs \<Rightarrow> Ret r rs)\<rparr>"

text \<open>
  A recorded session: the card's nonce, the session key and the authentication tag that
  \<open>digest\<close> gives for the master key of \<open>toy\<close>, an ECM of 27 bytes, the replies of the
  card, and the control words of the ECM.
\<close>

definition card_nonce :: bytes where
  "card_nonce = [0x11, 0x12, 0x13, 0x14, 0x15, 0x16, 0x17, 0x18]"

definition session_key :: bytes where
  "session_key = [236, 197, 158, 119, 80, 41, 2, 219, 180, 141, 102, 63, 24, 241, 202, 163,
     124, 85, 46, 7, 224, 185, 146, 107, 68, 29, 246, 207, 168, 129, 90, 51]"

definition a0_tag :: bytes where
  "a0_tag = [248, 233, 218, 203, 188, 173, 158, 143, 128, 113, 98, 83, 68, 53, 38, 23,
     8, 249, 234, 219, 204, 189, 174, 159, 144, 129, 114, 99, 84, 69, 54, 39]"

definition a0_reply :: "bytes \<Rightarrow> 32 word \<times> ApduResponse" where
  "a0_reply tag = (SCARD_S_SUCCESS,
     \<lparr>getData = [0, 0, 0, 0, 0, 0] @ card_nonce @ tag, sw1 = 0x90, sw2 = 0x00\<rparr>)"

definition ecm_blob :: bytes where
  "ecm_blob = [0x82, 0x00, 0x18, 0x00, 1, 2, 3, 4, 5, 6, 7, 8, 9, 10, 11, 12, 13, 14, 15, 16,
     17, 18, 19, 20, 21, 22, 23]"

definition e34_reply :: "32 word \<times> ApduResponse" where
  "e34_reply = (SCARD_S_SUCCESS,
     \<lparr>getData = [0, 0, 0, 0, 0, 0,
        0xFF, 0xFF, 0xFF, 0xFF, 0xFF, 0xFF, 0xFF, 0xFF, 0xFF, 0xFF, 0xFF, 0xFF, 0xFF, 0xFF, 0xFF, 0xFF,
        0xFF, 0xFF, 0xFF, 0xFF, 0xFF, 0xFF, 0xFF, 0xFF, 0xFF, 0xFF, 0xFF, 0xFF, 0xFF, 0xFF, 0xFF, 0xFF],
      sw1 = 0x90, sw2 = 0x00\<rparr>)"

definition control_words :: DecryptionKey where
  "control_words = \<lparr>odd = [251, 242, 233, 224, 215, 206, 197, 188, 179, 170, 161, 152, 143,
        134, 125, 116], even = [107, 98, 89, 80, 71, 62, 53, 44, 35, 26, 17, 8, 255, 246, 237,
          228]\<rparr>"



definition rejected_reply :: "32 word \<times> ApduResponse" where
  "rejected_reply = (SCARD_S_SUCCESS, \<lparr>getData = [], sw1 = 0x6A, sw2 = 0x82\<rparr>)"










section \<open>AcasCard: the A0 exchange\<close>












section \<open>AcasCard: the control words\<close>












section \<open>AcasCard: retries\<close>





lemma getA0AuthKcl_rejected:
  assumes "draw (distrib X) 8 c = (a0init, c0)" "ensure_ready sc c0 = Ret () c1"
    "transmit sc c1 (case4short 0x90 0xA0 0x00 0x01 (a0_prefix @ a0init) 0x00)
       = Ret (SCARD_S_SUCCESS, response) c2"
    "\<not> isSuccess response"
  shows "getA0AuthKcl X sc c = Returned None c2"
  using assms by (simp add: getA0AuthKcl_def)

lemma ecm_34_rejected:
  assumes "transmit sc c (case4short 0x90 0x34 0x00 0x01 e 0x00) = Ret (SCARD_S_SUCCESS, response) c1"
    "\<not> isSuccess response"
  shows "ecm_34 X sc e kcl c = Inr (Returned None c1)"
  using assms by (simp add: ecm_34_def)

text \<open>
  C4, as amended. A response with a status word other than 0x9000 to the 34 command
  makes \<open>ecm\<close> return false at once, with no further retry. A response with such a
  status word to the A0 command makes \<open>getA0AuthKcl\<close> return false, which \<open>ecm\<close>
  handles as any A0 failure: it retries while \<open>retryCount\<close> is at most 1 and returns
  false after that. Every failure of \<open>ecm\<close> is the same returned value false; the code
  has no separate results for a rejected and an unavailable card.
\<close>

theorem ecm_status_word:
  assumes "ensure_ready sc c = Ret () c1" and "scopedTransaction sc c1 = Ret () c2"
  shows "(\<forall>a0init c3 c4 c5 response.
            draw (distrib X) 8 c2 = (a0init, c3) \<and> ensure_ready sc c3 = Ret () c4 \<and>
            transmit sc c4 (case4short 0x90 0xA0 0x00 0x01 (a0_prefix @ a0init) 0x00)
              = Ret (SCARD_S_SUCCESS, response) c5 \<and>
            \<not> isSuccess response \<longrightarrow>
            ecm_retry X sc e retryCount c =
              (if 1 < retryCount then Returned (None, retryCount) (endTransaction sc c5)
               else ecm_retry X sc e (retryCount + 1) (endTransaction sc c5))) \<and>
         (\<forall>kcl c3 c4 response.
            getA0AuthKcl X sc c2 = Returned (Some kcl) c3 \<and>
            transmit sc c3 (case4short 0x90 0x34 0x00 0x01 e 0x00)
              = Ret (SCARD_S_SUCCESS, response) c4 \<and>
            \<not> isSuccess response \<longrightarrow>
            ecm_retry X sc e retryCount c = Returned (None, retryCount) (endTransaction sc c4))"
proof (intro conjI allI impI)
  fix a0init c3 c4 c5 response
  assume a: "draw (distrib X) 8 c2 = (a0init, c3) \<and> ensure_ready sc c3 = Ret () c4 \<and>
            transmit sc c4 (case4short 0x90 0xA0 0x00 0x01 (a0_prefix @ a0init) 0x00)
              = Ret (SCARD_S_SUCCESS, response) c5 \<and> \<not> isSuccess response"
  then have "getA0AuthKcl X sc c2 = Returned None c5"
    using getA0AuthKcl_rejected [of X c2 a0init c3 sc c4 response c5] by blast
  then have "ecm_pass X sc e c = Again (endTransaction sc c5)"
    using assms by (simp add: ecm_pass_def)
  then show "ecm_retry X sc e retryCount c =
              (if 1 < retryCount then Returned (None, retryCount) (endTransaction sc c5)
               else ecm_retry X sc e (retryCount + 1) (endTransaction sc c5))"
    by (subst ecm_retry.simps) simp
next
  fix kcl c3 c4 response
  assume a: "getA0AuthKcl X sc c2 = Returned (Some kcl) c3 \<and>
            transmit sc c3 (case4short 0x90 0x34 0x00 0x01 e 0x00)
              = Ret (SCARD_S_SUCCESS, response) c4 \<and> \<not> isSuccess response"
  then have "ecm_34 X sc e kcl c3 = Inr (Returned None c4)"
    using ecm_34_rejected [of sc c3 e response c4 X kcl] by blast
  with a have "ecm_pass X sc e c = Final (Returned None (endTransaction sc c4))"
    using assms by (simp add: ecm_pass_def release_def)
  then show "ecm_retry X sc e retryCount c = Returned (None, retryCount) (endTransaction sc c4)"
    by (subst ecm_retry.simps) simp
qed

theorem ecm_status_word_witness:
  "ensure_ready replay [a0_reply a0_tag, rejected_reply] = Ret () [a0_reply a0_tag, rejected_reply] \<and>
   scopedTransaction replay [a0_reply a0_tag, rejected_reply] = Ret () [a0_reply a0_tag, rejected_reply] \<and>
   getA0AuthKcl toy replay [a0_reply a0_tag, rejected_reply] = Returned (Some session_key) [rejected_reply] \<and>
   transmit replay [rejected_reply] (case4short 0x90 0x34 0x00 0x01 ecm_blob 0x00)
     = Ret (SCARD_S_SUCCESS, snd rejected_reply) [] \<and>
   \<not> isSuccess (snd rejected_reply) \<and>
   ecm_retry toy replay ecm_blob 0 [a0_reply a0_tag, rejected_reply] = Returned (None, 0) [] \<and>
   transmit replay [rejected_reply, a0_reply a0_tag, e34_reply]
       (case4short 0x90 0xA0 0x00 0x01 (a0_prefix @ [1, 1, 1, 1, 1, 1, 1, 1]) 0x00)
     = Ret (SCARD_S_SUCCESS, snd rejected_reply) [a0_reply a0_tag, e34_reply] \<and>
   ecm_retry toy replay ecm_blob 0 [rejected_reply, a0_reply a0_tag, e34_reply]
     = ecm_retry toy replay ecm_blob 1 [a0_reply a0_tag, e34_reply] \<and>
   ecm_retry toy replay ecm_blob 2 [rejected_reply, a0_reply a0_tag, e34_reply]
     = Returned (None, 2) [a0_reply a0_tag, e34_reply]"
proof -
  let ?S = "[a0_reply a0_tag, rejected_reply]"
  let ?S' = "[rejected_reply, a0_reply a0_tag, e34_reply]"
  let ?R = "[a0_reply a0_tag, e34_reply]"
  have a: "ensure_ready replay ?S = Ret () ?S" by code_simp
  have b: "scopedTransaction replay ?S = Ret () ?S" by code_simp
  have c: "getA0AuthKcl toy replay ?S = Returned (Some session_key) [rejected_reply]"
    by code_simp
  have d: "transmit replay [rejected_reply] (case4short 0x90 0x34 0x00 0x01 ecm_blob 0x00)
     = Ret (SCARD_S_SUCCESS, snd rejected_reply) []" by code_simp
  have f: "\<not> isSuccess (snd rejected_reply)" by code_simp
  have g: "endTransaction replay [] = []" "endTransaction replay ?R = ?R" by code_simp+
  from ecm_status_word [OF a b, of toy ecm_blob 0, THEN conjunct2, rule_format,
      OF conjI [OF c conjI [OF d f]]] g
  have 1: "ecm_retry toy replay ecm_blob 0 ?S = Returned (None, 0) []" by simp
  have a': "ensure_ready replay ?S' = Ret () ?S'" by code_simp
  have b': "scopedTransaction replay ?S' = Ret () ?S'" by code_simp
  have dr: "draw (distrib toy) 8 ?S' = ([1, 1, 1, 1, 1, 1, 1, 1], ?S')" by code_simp
  have tr: "transmit replay ?S'
       (case4short 0x90 0xA0 0x00 0x01 (a0_prefix @ [1, 1, 1, 1, 1, 1, 1, 1]) 0x00)
     = Ret (SCARD_S_SUCCESS, snd rejected_reply) ?R" by code_simp
  from ecm_status_word [OF a' b', of toy ecm_blob 0, THEN conjunct1, rule_format,
      OF conjI [OF dr conjI [OF a' conjI [OF tr f]]]] g
  have 2: "ecm_retry toy replay ecm_blob 0 ?S' = ecm_retry toy replay ecm_blob 1 ?R" by simp
  from ecm_status_word [OF a' b', of toy ecm_blob 2, THEN conjunct1, rule_format,
      OF conjI [OF dr conjI [OF a' conjI [OF tr f]]]] g
  have 3: "ecm_retry toy replay ecm_blob 2 ?S' = Returned (None, 2) ?R" by simp
  from a b c d f 1 tr 2 3 show ?thesis by blast
qed

text \<open>
  C4 as stated fails: the card answers the first A0 command with the status word 0x6A82.
  \<open>ecm\<close> does not fail; it retries, the second A0 exchange and the 34 command succeed,
  and the call returns true with the control words after one retry.
\<close>

theorem ecm_rejected_A0_counterexample:
  "fst rejected_reply = SCARD_S_SUCCESS \<and> \<not> isSuccess (snd rejected_reply) \<and>
   ecm toy (Some replay) ecm_blob [rejected_reply, a0_reply a0_tag, e34_reply]
     = Returned (Some control_words, 1) []"
  by code_simp

section \<open>AcasCard: reads of the response data\<close>






section \<open>AcasHandler: which key decrypt uses\<close>









section \<open>IOThread: the bytes carried between buffers\<close>

lemma remaining_size_le: "remaining_size rv \<le> SPILL_OVER_AREA_SIZE"
  by (simp add: remaining_size_def)

lemma remaining_size_le_length: "remaining_size rv \<le> length rv"
  by (simp add: remaining_size_def)



lemma write_at_Some:
  "off + length src \<le> length buf \<Longrightarrow>
     \<exists>b. write_at buf off src = Some b \<and> length b = length buf \<and>
          take (off + length src) b = take off buf @ src"
  by (simp add: write_at_def)

text \<open>
  On a buffer of \<open>BUFFER_SIZE\<close> bytes, both writes of an iteration are inside the
  buffer, and the view shows the carried bytes followed by the bytes just read.
\<close>

lemma produce_view:
  assumes "length wb = BUFFER_SIZE"
  shows "\<exists>buf. length buf = BUFFER_SIZE \<and>
           take (remaining_size rv + length (take NEW_DATA_AREA_SIZE input)) buf
             = take (remaining_size rv) rv @ take NEW_DATA_AREA_SIZE input \<and>
           produce rv wb input =
             Some (if take NEW_DATA_AREA_SIZE input = [] then Stop
                   else Push buf (remaining_size rv) (length (take NEW_DATA_AREA_SIZE input)),
                   drop NEW_DATA_AREA_SIZE input)"
proof -
  let ?n = "remaining_size rv"
  let ?chunk = "take NEW_DATA_AREA_SIZE input"
  have n: "?n \<le> SPILL_OVER_AREA_SIZE" by (rule remaining_size_le)
  have nl: "?n \<le> length rv" by (rule remaining_size_le_length)
  have B: "BUFFER_SIZE = SPILL_OVER_AREA_SIZE + NEW_DATA_AREA_SIZE"
    by (simp add: BUFFER_SIZE_def)
  have fit1: "0 + length (take ?n rv) \<le> length wb" using n nl assms B by simp
  obtain wb1 where wb1: "length wb1 = BUFFER_SIZE"
      "take ?n wb1 = take ?n rv"
      "(if rv \<noteq> [] then write_at wb 0 (take ?n rv) else Some wb) = Some wb1"
  proof (cases "rv = []")
    case True
    then show ?thesis using that [of wb] assms by (simp add: remaining_size_def)
  next
    case False
    from write_at_Some [OF fit1] obtain b where
      "write_at wb 0 (take ?n rv) = Some b" "length b = length wb"
      "take (0 + length (take ?n rv)) b = take 0 wb @ take ?n rv" by blast
    then show ?thesis using that [of b] False assms nl by (simp add: min_absorb2)
  qed
  have fit2: "?n + length ?chunk \<le> length wb1" using n wb1(1) B by simp
  from write_at_Some [OF fit2] obtain wb2 where wb2:
    "write_at wb1 ?n ?chunk = Some wb2" "length wb2 = length wb1"
    "take (?n + length ?chunk) wb2 = take ?n wb1 @ ?chunk" by blast
  show ?thesis
    apply (rule exI [of _ wb2])
    using wb1 wb2 by (simp add: produce_def Let_def)
qed







text \<open>
  C10. In every iteration the producer copies \<open>remaining_size rv\<close> bytes of the report's
  \<open>remaining_view\<close>, which is at most \<open>SPILL_OVER_AREA_SIZE\<close>, and exactly that for a
  longer view; the read that follows may fill up to \<open>NEW_DATA_AREA_SIZE\<close> bytes after
  them and still ends inside the buffer of 17 MiB, so that on a work buffer of
  \<open>BUFFER_SIZE\<close> bytes no write of the iteration falls outside it.
\<close>

theorem produce_copy_clamped:
  assumes "length workBuffer = BUFFER_SIZE"
  shows "remaining_size rv \<le> SPILL_OVER_AREA_SIZE \<and>
         (SPILL_OVER_AREA_SIZE < length rv \<longrightarrow> remaining_size rv = SPILL_OVER_AREA_SIZE) \<and>
         remaining_size rv + NEW_DATA_AREA_SIZE \<le> BUFFER_SIZE \<and>
         BUFFER_SIZE = 17 * 1024 * 1024 \<and>
         produce rv workBuffer input \<noteq> None"
proof -
  from produce_view [OF assms, of rv input] have "produce rv workBuffer input \<noteq> None"
    by auto
  moreover have "remaining_size rv + NEW_DATA_AREA_SIZE \<le> BUFFER_SIZE"
    using remaining_size_le [of rv] by (simp add: BUFFER_SIZE_def)
  moreover have "BUFFER_SIZE = 17 * 1024 * 1024"
    by (simp add: BUFFER_SIZE_def SPILL_OVER_AREA_SIZE_def NEW_DATA_AREA_SIZE_def)
  moreover have "SPILL_OVER_AREA_SIZE < length rv \<longrightarrow> remaining_size rv = SPILL_OVER_AREA_SIZE"
    by (auto simp: remaining_size_def)
  ultimately show ?thesis using remaining_size_le [of rv] by blast
qed

theorem produce_copy_clamped_witness:
  "length (replicate BUFFER_SIZE (0 :: byte)) = BUFFER_SIZE \<and>
   SPILL_OVER_AREA_SIZE < length (replicate (Suc SPILL_OVER_AREA_SIZE) (1 :: byte)) \<and>
   remaining_size (replicate (Suc SPILL_OVER_AREA_SIZE) 1) = SPILL_OVER_AREA_SIZE \<and>
   produce (replicate (Suc SPILL_OVER_AREA_SIZE) 1) (replicate BUFFER_SIZE 0) [4, 5] \<noteq> None"
  using produce_copy_clamped [of "replicate BUFFER_SIZE 0"
      "replicate (Suc SPILL_OVER_AREA_SIZE) 1" "[4, 5]"]
  by simp

end
